theory Spec2Isabelle
  imports Main "HOL-Library.Multiset"
begin

section \<open>Errors and outcomes\<close>

text \<open>
  A payload is Go's \<^verbatim>\<open>[]byte\<close>; a \<^typ>\<open>char\<close> is one byte.
\<close>

type_synonym bytes = string

text \<open>
  The failures \<^verbatim>\<open>encoding/xml\<close> reports: \<^verbatim>\<open>io.EOF\<close>,
  \<^verbatim>\<open>*xml.SyntaxError{Msg, Line}\<close>, \<^verbatim>\<open>xml.UnmarshalError\<close>, and
  any other error value the package builds (for instance the one for a declared encoding
  it has no reader for). \<open>OutsideFragment\<close> is no error of Go's: it is the answer of the
  reference decoder of this theory on input it does not cover.
\<close>

datatype xml_error =
    EOF
  | SyntaxError string nat
  | UnmarshalError string
  | OtherXMLError string
  | OutsideFragment

text \<open>
  A Go \<^verbatim>\<open>error\<close> value of this program is either built by \<^verbatim>\<open>fmt.Errorf\<close> in the
  dispatcher or comes out of the decoder. Go compares error values by identity, so a value
  built by one \<^verbatim>\<open>fmt.Errorf\<close> call is never a value built inside the decoder; the
  constructors keep the two origins apart. The nil error is \<^term>\<open>None\<close>.
\<close>

datatype error =
    Errorf string
  | DecodeError xml_error

text \<open>
  A call either returns its \<^verbatim>\<open>error\<close> result or panics (Go's run-time panic for a method
  call through a nil interface value).
\<close>

datatype outcome =
    Returned "error option"
  | Panic

section \<open>The capability contract and the dispatcher\<close>

text \<open>
  \<^verbatim>\<open>type Handler interface { CanHandle(xmlData []byte) bool; Handle(xmlData []byte) error }\<close>

  \<^verbatim>\<open>CanHandle\<close> is a function of the payload. \<^verbatim>\<open>Handle\<close> acts on the
  world outside the dispatcher (standard output, the handler's own fields), of type \<^typ>\<open>'w\<close>,
  and returns its error together with the new world. An interface value may be nil: a registry
  entry is an optional handler, \<^term>\<open>None\<close> for nil.
\<close>

record 'w Handler =
  CanHandle :: "bytes \<Rightarrow> bool"
  Handle :: "bytes \<Rightarrow> 'w \<Rightarrow> error option \<times> 'w"

record 'w XMLProcessor =
  handlers :: "'w Handler option list"

definition NewXMLProcessor :: "'w XMLProcessor" where
  "NewXMLProcessor = \<lparr>handlers = []\<rparr>"

definition RegisterHandler :: "'w XMLProcessor \<Rightarrow> 'w Handler option \<Rightarrow> 'w XMLProcessor" where
  "RegisterHandler p h = p\<lparr>handlers := handlers p @ [h]\<rparr>"

text \<open>
  The body of \<^verbatim>\<open>ProcessXML\<close>: the \<^verbatim>\<open>for _, handler := range p.handlers\<close> loop and
  the \<^verbatim>\<open>return fmt.Errorf(...)\<close> after it.
\<close>

fun range_handlers :: "'w Handler option list \<Rightarrow> bytes \<Rightarrow> 'w \<Rightarrow> outcome \<times> 'w" where
  "range_handlers [] xmlData w =
     (Returned (Some (Errorf ''no handler found for the given XML'')), w)"
| "range_handlers (None # rest) xmlData w = (Panic, w)"
| "range_handlers (Some handler # rest) xmlData w =
     (if CanHandle handler xmlData
      then (case Handle handler xmlData w of (err, w') \<Rightarrow> (Returned err, w'))
      else range_handlers rest xmlData w)"

definition ProcessXML :: "'w XMLProcessor \<Rightarrow> bytes \<Rightarrow> 'w \<Rightarrow> outcome \<times> 'w" where
  "ProcessXML p xmlData w = range_handlers (handlers p) xmlData w"

text \<open>
  A handler whose \<^verbatim>\<open>Handle\<close> also counts its own invocations: the world gets a counter
  in front, and every run of \<^verbatim>\<open>Handle\<close> adds one to it.
\<close>

definition counting :: "'w Handler \<Rightarrow> (nat \<times> 'w) Handler" where
  "counting h =
     \<lparr>CanHandle = CanHandle h,
      Handle = (\<lambda>xmlData (n, w). case Handle h xmlData w of (err, w') \<Rightarrow> (err, (Suc n, w')))\<rparr>"

section \<open>The decoding facility\<close>

text \<open>
  The handlers decode with \<^verbatim>\<open>xml.Unmarshal\<close> of Go's \<^verbatim>\<open>encoding/xml\<close>, which is
  not part of the repository. Its token types are modelled as data: \<^verbatim>\<open>xml.Name\<close>,
  \<^verbatim>\<open>xml.Attr\<close>, \<^verbatim>\<open>xml.StartElement\<close>, and an element's content as the list of
  what the decoder reads between its start and its end tag.
\<close>

record Name =
  Space :: string
  Local :: string

record Attr =
  AttrName :: Name
  Value :: string

record StartElement =
  ElemName :: Name
  Attrs :: "Attr list"

datatype node =
    Element StartElement "node list"
  | CharData string
  | Comment string
  | ProcInst string string
  | Directive string

text \<open>
  What a fresh decoder reads from a payload, as \<^verbatim>\<open>Unmarshal\<close> drives it: first the
  tokens up to the first start element (\<^term>\<open>Inl err\<close> when the token stream fails before
  one is found, \<^verbatim>\<open>io.EOF\<close> on input without any element), then that element's content up
  to its matching end tag (\<^term>\<open>Inl err\<close> when the stream fails before the end tag).
  Nothing behind the root element's end tag is read. The tokenizer itself is a parameter
  of the handlers: every general theorem below holds for each function of this type.
\<close>

type_synonym decoder = "bytes \<Rightarrow> xml_error + (StartElement \<times> (xml_error + node list))"

text \<open>
  \<^verbatim>\<open>Unmarshal\<close> into a struct, for the struct shapes the handlers declare. \<open>xmlname\<close> is
  the tag of the struct's \<^verbatim>\<open>XMLName\<close> field, empty for a struct without one; the decoder
  compares it with the start element before it reads on
  (\<^verbatim>\<open>finfo.name != "" && finfo.name != start.Name.Local\<close>). \<open>fill\<close> builds the struct
  from the start element and the content.
\<close>

definition Unmarshal ::
  "decoder \<Rightarrow> bytes \<Rightarrow> string \<Rightarrow> (StartElement \<Rightarrow> node list \<Rightarrow> 'v) \<Rightarrow> xml_error + 'v" where
  "Unmarshal dec xmlData xmlname fill =
     (case dec xmlData of
        Inl err \<Rightarrow> Inl err
      | Inr (start, content) \<Rightarrow>
          if xmlname \<noteq> [] \<and> xmlname \<noteq> Local (ElemName start)
          then Inl (UnmarshalError
                 (''expected element type <'' @ xmlname @ ''> but have <'' @
                  Local (ElemName start) @ ''>''))
          else (case content of
                  Inl err \<Rightarrow> Inl err
                | Inr nodes \<Rightarrow> Inr (fill start nodes)))"

text \<open>
  A string field tagged \<^verbatim>\<open>`xml:"name,attr"`\<close>: the decoder walks the start element's
  attributes in order and stores the value of each one whose local name is the tag.
\<close>

fun assign_attr :: "string \<Rightarrow> Attr list \<Rightarrow> string \<Rightarrow> string" where
  "assign_attr name [] v = v"
| "assign_attr name (a # as) v =
     assign_attr name as (if Local (AttrName a) = name then Value a else v)"

text \<open>
  The attribute of a start element as the specification speaks of it: the value of the
  attribute with the given local name, the last one where a tag repeats the name, and
  nothing where no attribute has the name.
\<close>

fun attribute :: "string \<Rightarrow> Attr list \<Rightarrow> string option" where
  "attribute name [] = None"
| "attribute name (a # as) =
     (case attribute name as of
        Some v \<Rightarrow> Some v
      | None \<Rightarrow> if Local (AttrName a) = name then Some (Value a) else None)"

text \<open>
  A well-formedness constraint of XML on a start tag: no attribute name appears in it more
  than once. The decoder does not enforce it.
\<close>

definition unique_attributes :: "StartElement \<Rightarrow> bool" where
  "unique_attributes start \<longleftrightarrow> distinct (map AttrName (Attrs start))"

text \<open>
  A string field tagged \<^verbatim>\<open>`xml:"name"`\<close>: the decoder walks the child elements in order;
  a child whose local name is the tag is decoded into the field, as the character data
  directly inside it; every other child is skipped.
\<close>

fun chardata :: "node list \<Rightarrow> string" where
  "chardata [] = []"
| "chardata (CharData s # ns) = s @ chardata ns"
| "chardata (_ # ns) = chardata ns"

fun assign_elem :: "string \<Rightarrow> node list \<Rightarrow> string \<Rightarrow> string" where
  "assign_elem name [] v = v"
| "assign_elem name (Element start content # ns) v =
     assign_elem name ns (if Local (ElemName start) = name then chardata content else v)"
| "assign_elem name (_ # ns) v = assign_elem name ns v"

section \<open>The reference handlers\<close>

text \<open>
  Standard output is the string of bytes written so far. \<^verbatim>\<open>fmt.Println\<close> writes its
  operands separated by single spaces and ends the line.
\<close>

fun spaced :: "string list \<Rightarrow> string" where
  "spaced [] = []"
| "spaced [a] = a"
| "spaced (a # b # rest) = a @ '' '' @ spaced (b # rest)"

definition Println :: "string list \<Rightarrow> string \<Rightarrow> string" where
  "Println operands out = out @ spaced operands @ [CHR 0x0A]"

text \<open>
  The local struct types of the four methods. The zero value of a string is empty. The
  two \<^verbatim>\<open>Root\<close> types are unrelated in Go; the record extension only lets both have
  a field called \<open>XMLName\<close>.
\<close>

record Root_report =
  XMLName :: Name

record Report =
  Data :: string

record Root_invoice = Root_report +
  Type :: string

record Invoice =
  Amount :: string

text \<open>
  The four \<^verbatim>\<open>xml.Unmarshal(xmlData, &v)\<close> calls, one for each local struct type.
\<close>

definition Unmarshal_Root_report :: "decoder \<Rightarrow> bytes \<Rightarrow> xml_error + Root_report" where
  "Unmarshal_Root_report dec xmlData =
     Unmarshal dec xmlData ''report'' (\<lambda>start nodes. \<lparr>XMLName = ElemName start\<rparr>)"

definition Unmarshal_Report :: "decoder \<Rightarrow> bytes \<Rightarrow> xml_error + Report" where
  "Unmarshal_Report dec xmlData =
     Unmarshal dec xmlData [] (\<lambda>start nodes. \<lparr>Data = assign_elem ''data'' nodes []\<rparr>)"

definition Unmarshal_Root_invoice :: "decoder \<Rightarrow> bytes \<Rightarrow> xml_error + Root_invoice" where
  "Unmarshal_Root_invoice dec xmlData =
     Unmarshal dec xmlData ''invoice''
       (\<lambda>start nodes. \<lparr>XMLName = ElemName start, Type = assign_attr ''type'' (Attrs start) []\<rparr>)"

definition Unmarshal_Invoice :: "decoder \<Rightarrow> bytes \<Rightarrow> xml_error + Invoice" where
  "Unmarshal_Invoice dec xmlData =
     Unmarshal dec xmlData [] (\<lambda>start nodes. \<lparr>Amount = assign_elem ''amount'' nodes []\<rparr>)"

definition ReportHandler_CanHandle :: "decoder \<Rightarrow> bytes \<Rightarrow> bool" where
  "ReportHandler_CanHandle dec xmlData =
     (case Unmarshal_Root_report dec xmlData of
        Inl err \<Rightarrow> False
      | Inr root \<Rightarrow> Local (XMLName root) = ''report'')"

definition ReportHandler_Handle :: "decoder \<Rightarrow> bytes \<Rightarrow> string \<Rightarrow> error option \<times> string" where
  "ReportHandler_Handle dec xmlData out =
     (case Unmarshal_Report dec xmlData of
        Inl err \<Rightarrow> (Some (DecodeError err), out)
      | Inr report \<Rightarrow> (None, Println [''Processing report:'', Data report] out))"

definition InvoiceHandler_CanHandle :: "decoder \<Rightarrow> bytes \<Rightarrow> bool" where
  "InvoiceHandler_CanHandle dec xmlData =
     (case Unmarshal_Root_invoice dec xmlData of
        Inl err \<Rightarrow> False
      | Inr root \<Rightarrow> Local (XMLName root) = ''invoice'' \<and> Type root = ''sales'')"

definition InvoiceHandler_Handle :: "decoder \<Rightarrow> bytes \<Rightarrow> string \<Rightarrow> error option \<times> string" where
  "InvoiceHandler_Handle dec xmlData out =
     (case Unmarshal_Invoice dec xmlData of
        Inl err \<Rightarrow> (Some (DecodeError err), out)
      | Inr invoice \<Rightarrow> (None, Println [''Processing invoice amount:'', Amount invoice] out))"

definition ReportHandler :: "decoder \<Rightarrow> string Handler" where
  "ReportHandler dec =
     \<lparr>CanHandle = ReportHandler_CanHandle dec, Handle = ReportHandler_Handle dec\<rparr>"

definition InvoiceHandler :: "decoder \<Rightarrow> string Handler" where
  "InvoiceHandler dec =
     \<lparr>CanHandle = InvoiceHandler_CanHandle dec, Handle = InvoiceHandler_Handle dec\<rparr>"

text \<open>
  A handler that claims every payload and processes it as \<^verbatim>\<open>ReportHandler\<close> does. The
  dispatcher takes any value with the two methods; this one lets a chosen handler fail.
\<close>

definition CatchAllHandler :: "decoder \<Rightarrow> string Handler" where
  "CatchAllHandler dec =
     \<lparr>CanHandle = (\<lambda>xmlData. True), Handle = ReportHandler_Handle dec\<rparr>"

section \<open>A reference decoder\<close>

text \<open>
  A decoder for the fragment of XML that the scenarios of the specification use: start
  tags with quoted attributes, end tags, empty-element tags and character data, in
  printable ASCII, without references, comments, processing instructions, CDATA sections,
  directives or name spaces. Inside the fragment it follows the tokenizer of
  \<^verbatim>\<open>encoding/xml\<close> in strict mode, its syntax errors and line count included; on
  anything else it answers \<^term>\<open>OutsideFragment\<close>. It serves to run the handlers on concrete
  payloads; the general theorems do not depend on it.
\<close>

definition isNameByte :: "char \<Rightarrow> bool" where
  "isNameByte c \<longleftrightarrow>
     c \<in> set ''ABCDEFGHIJKLMNOPQRSTUVWXYZabcdefghijklmnopqrstuvwxyz0123456789_:.-''"

definition is_space :: "char \<Rightarrow> bool" where
  "is_space c \<longleftrightarrow> c = CHR '' '' \<or> c = CHR 0x0D \<or> c = CHR 0x0A \<or> c = CHR 0x09"

definition modelled_byte :: "char \<Rightarrow> bool" where
  "modelled_byte c \<longleftrightarrow>
     c = CHR 0x09 \<or> c = CHR 0x0A \<or> c = CHR 0x0D \<or>
     (32 \<le> (of_char c :: nat) \<and> (of_char c :: nat) \<le> 126)"

definition text_byte :: "char \<Rightarrow> bool" where
  "text_byte c \<longleftrightarrow> c \<noteq> CHR 0x0D \<and> c \<noteq> CHR ''&'' \<and> c \<noteq> CHR '']'' \<and> c \<noteq> CHR ''<''"

definition value_byte :: "char \<Rightarrow> bool" where
  "value_byte c \<longleftrightarrow> text_byte c \<and> c \<noteq> CHR 0x0A \<and> c \<noteq> CHR 0x09"

definition check_name :: "string \<Rightarrow> nat \<Rightarrow> xml_error option" where
  "check_name s line =
     (if CHR '':'' \<in> set s then Some OutsideFragment
      else (case s of
              [] \<Rightarrow> Some (SyntaxError (''invalid XML name: '' @ s) line)
            | c # _ \<Rightarrow>
                if c \<in> set ''ABCDEFGHIJKLMNOPQRSTUVWXYZabcdefghijklmnopqrstuvwxyz_'' then None
                else Some (SyntaxError (''invalid XML name: '' @ s) line)))"

definition check_attr_name :: "string \<Rightarrow> nat \<Rightarrow> xml_error option" where
  "check_attr_name s line = (if s = ''xmlns'' then Some OutsideFragment else check_name s line)"

definition mk_start :: "string \<Rightarrow> Attr list \<Rightarrow> StartElement" where
  "mk_start name attrs = \<lparr>ElemName = \<lparr>Space = [], Local = name\<rparr>, Attrs = attrs\<rparr>"

definition mk_attr :: "string \<Rightarrow> string \<Rightarrow> Attr" where
  "mk_attr name v = \<lparr>AttrName = \<lparr>Space = [], Local = name\<rparr>, Value = v\<rparr>"

text \<open>
  The open elements, innermost first, each with the content read so far. The last frame
  is the root element.
\<close>

type_synonym frame = "StartElement \<times> node list"

type_synonym decoded = "xml_error + (StartElement \<times> (xml_error + node list))"

datatype lex_state =
    Text string
  | TagOpen
  | StartName string
  | InTag string "Attr list"
  | AttrNameS string "Attr list" string
  | AfterAttrName string "Attr list" string
  | BeforeValue string "Attr list" string
  | AttrVal string "Attr list" string char string
  | Slash string "Attr list"
  | TagClose
  | EndName string
  | AfterEndName string

datatype step_result =
    Stop decoded
  | Next lex_state "frame list"

definition fail :: "frame list \<Rightarrow> xml_error \<Rightarrow> decoded" where
  "fail stk err = (case stk of [] \<Rightarrow> Inl err | _ # _ \<Rightarrow> Inr (fst (last stk), Inl err))"

definition add_node :: "node \<Rightarrow> frame list \<Rightarrow> frame list" where
  "add_node n stk = (case stk of [] \<Rightarrow> [] | (start, ns) # below \<Rightarrow> (start, ns @ [n]) # below)"

definition flush :: "string \<Rightarrow> frame list \<Rightarrow> frame list" where
  "flush txt stk = (if txt = [] then stk else add_node (CharData txt) stk)"

definition finish :: "StartElement \<Rightarrow> node list \<Rightarrow> frame list \<Rightarrow> step_result" where
  "finish start ns below =
     (case below of
        [] \<Rightarrow> Stop (Inr (start, Inr ns))
      | _ # _ \<Rightarrow> Next (Text []) (add_node (Element start ns) below))"

definition in_tag :: "string \<Rightarrow> Attr list \<Rightarrow> frame list \<Rightarrow> nat \<Rightarrow> char \<Rightarrow> step_result" where
  "in_tag name attrs stk line c =
     (if is_space c then Next (InTag name attrs) stk
      else if c = CHR ''/'' then Next (Slash name attrs) stk
      else if c = CHR ''>'' then Next (Text []) ((mk_start name attrs, []) # stk)
      else if isNameByte c then Next (AttrNameS name attrs [c]) stk
      else Stop (fail stk (SyntaxError ''expected attribute name in element'' line)))"

definition after_attr_name ::
  "string \<Rightarrow> Attr list \<Rightarrow> string \<Rightarrow> frame list \<Rightarrow> nat \<Rightarrow> char \<Rightarrow> step_result" where
  "after_attr_name name attrs aname stk line c =
     (if is_space c then Next (AfterAttrName name attrs aname) stk
      else if c = CHR ''='' then Next (BeforeValue name attrs aname) stk
      else Stop (fail stk (SyntaxError ''attribute name without = in element'' line)))"

definition close_element :: "string \<Rightarrow> frame list \<Rightarrow> nat \<Rightarrow> step_result" where
  "close_element name stk line =
     (case stk of
        [] \<Rightarrow> Stop (Inl (SyntaxError (''unexpected end element </'' @ name @ ''>'') line))
      | (start, ns) # below \<Rightarrow>
          if Local (ElemName start) = name then finish start ns below
          else Stop (fail stk (SyntaxError
                 (''element <'' @ Local (ElemName start) @ ''> closed by </'' @ name @ ''>'')
                 line)))"

definition after_end_name :: "string \<Rightarrow> frame list \<Rightarrow> nat \<Rightarrow> char \<Rightarrow> step_result" where
  "after_end_name name stk line c =
     (if is_space c then Next (AfterEndName name) stk
      else if c = CHR ''>'' then close_element name stk line
      else Stop (fail stk (SyntaxError
             (''invalid characters between </'' @ name @ '' and >'') line)))"

text \<open>
  One byte \<open>c\<close> in state \<open>st\<close>; \<open>line\<close> is the line count before \<open>c\<close>.
\<close>

fun step :: "lex_state \<Rightarrow> frame list \<Rightarrow> nat \<Rightarrow> char \<Rightarrow> step_result" where
  "step (Text txt) stk line c =
     (if c = CHR ''<'' then Next TagOpen (flush txt stk)
      else if text_byte c then Next (Text (txt @ [c])) stk
      else Stop (fail stk OutsideFragment))"
| "step TagOpen stk line c =
     (if c = CHR ''/'' then Next TagClose stk
      else if c = CHR ''?'' \<or> c = CHR ''!'' then Stop (fail stk OutsideFragment)
      else if isNameByte c then Next (StartName [c]) stk
      else Stop (fail stk (SyntaxError ''expected element name after <'' line)))"
| "step (StartName acc) stk line c =
     (if isNameByte c then Next (StartName (acc @ [c])) stk
      else (case check_name acc line of
              Some err \<Rightarrow> Stop (fail stk err)
            | None \<Rightarrow> in_tag acc [] stk line c))"
| "step (InTag name attrs) stk line c = in_tag name attrs stk line c"
| "step (AttrNameS name attrs acc) stk line c =
     (if isNameByte c then Next (AttrNameS name attrs (acc @ [c])) stk
      else (case check_attr_name acc line of
              Some err \<Rightarrow> Stop (fail stk err)
            | None \<Rightarrow> after_attr_name name attrs acc stk line c))"
| "step (AfterAttrName name attrs aname) stk line c = after_attr_name name attrs aname stk line c"
| "step (BeforeValue name attrs aname) stk line c =
     (if is_space c then Next (BeforeValue name attrs aname) stk
      else if c = CHR 0x22 \<or> c = CHR 0x27 then Next (AttrVal name attrs aname c []) stk
      else Stop (fail stk (SyntaxError ''unquoted or missing attribute value in element'' line)))"
| "step (AttrVal name attrs aname q acc) stk line c =
     (if c = q then Next (InTag name (attrs @ [mk_attr aname acc])) stk
      else if value_byte c then Next (AttrVal name attrs aname q (acc @ [c])) stk
      else Stop (fail stk OutsideFragment))"
| "step (Slash name attrs) stk line c =
     (if c = CHR ''>'' then finish (mk_start name attrs) [] stk
      else Stop (fail stk (SyntaxError ''expected /> in element''
             (if c = CHR 0x0A then Suc line else line))))"
| "step TagClose stk line c =
     (if isNameByte c then Next (EndName [c]) stk
      else Stop (fail stk (SyntaxError ''expected element name after </'' line)))"
| "step (EndName acc) stk line c =
     (if isNameByte c then Next (EndName (acc @ [c])) stk
      else (case check_name acc line of
              Some err \<Rightarrow> Stop (fail stk err)
            | None \<Rightarrow> after_end_name acc stk line c))"
| "step (AfterEndName name) stk line c = after_end_name name stk line c"

definition at_eof :: "lex_state \<Rightarrow> frame list \<Rightarrow> nat \<Rightarrow> xml_error" where
  "at_eof st stk line =
     (case st of
        Text txt \<Rightarrow> if stk = [] then EOF else SyntaxError ''unexpected EOF'' line
      | _ \<Rightarrow> SyntaxError ''unexpected EOF'' line)"

fun decode_from :: "lex_state \<Rightarrow> frame list \<Rightarrow> nat \<Rightarrow> bytes \<Rightarrow> decoded" where
  "decode_from st stk line [] = fail stk (at_eof st stk line)"
| "decode_from st stk line (c # cs) =
     (if \<not> modelled_byte c then fail stk OutsideFragment
      else (case step st stk line c of
              Stop r \<Rightarrow> r
            | Next st' stk' \<Rightarrow> decode_from st' stk' (if c = CHR 0x0A then Suc line else line) cs))"

definition xml_decode :: decoder where
  "xml_decode xmlData = decode_from (Text []) [] 1 xmlData"

section \<open>The dispatcher: helper lemmas\<close>

lemma range_handlers_skip:
  "\<forall>g\<in>set pre. \<not> CanHandle g xmlData \<Longrightarrow>
   range_handlers (map Some pre @ rest) xmlData w = range_handlers rest xmlData w"
  by (induction pre) simp_all

lemma range_handlers_filter:
  "range_handlers (map Some hs) xmlData w =
     (case filter (\<lambda>h. CanHandle h xmlData) hs of
        [] \<Rightarrow> (Returned (Some (Errorf ''no handler found for the given XML'')), w)
      | h # _ \<Rightarrow> (case Handle h xmlData w of (err, w') \<Rightarrow> (Returned err, w')))"
  by (induction hs) simp_all

lemma range_handlers_counting:
  "fst (snd (range_handlers (map (map_option counting) hs) xmlData (n, w))) \<le> Suc n"
proof (induction hs)
  case Nil
  show ?case by simp
next
  case (Cons e hs)
  show ?case
  proof (cases e)
    case None
    then show ?thesis by simp
  next
    case (Some h)
    with Cons show ?thesis
      by (simp add: counting_def split: prod.splits)
  qed
qed

lemma filter_perm_le1:
  assumes "mset hs' = mset hs"
  shows "length (filter P hs') \<le> 1 \<Longrightarrow> filter P hs = filter P hs'"
proof -
  assume le: "length (filter P hs') \<le> 1"
  have m: "mset (filter P hs) = mset (filter P hs')"
  proof -
    have "mset (filter P hs) = filter_mset P (mset hs)" by simp
    also have "\<dots> = filter_mset P (mset hs')" by (simp only: assms)
    also have "\<dots> = mset (filter P hs')" by simp
    finally show ?thesis .
  qed
  show ?thesis
  proof (cases "filter P hs'")
    case Nil
    with m show ?thesis by simp
  next
    case (Cons a as)
    with le have "as = []" by simp
    have single: "\<And>xs. mset xs = {#a#} \<Longrightarrow> xs = [a]"
    proof -
      fix xs :: "'a list"
      assume "mset xs = {#a#}"
      then show "xs = [a]" by (cases xs) auto
    qed
    from Cons \<open>as = []\<close> m have "mset (filter P hs) = {#a#}" by (simp del: mset_filter)
    then have "filter P hs = [a]" by (rule single)
    with Cons \<open>as = []\<close> show ?thesis by simp
  qed
qed

section \<open>The decoder and the handlers: helper lemmas\<close>

lemma Unmarshal_unnamed_content:
  "dec xmlData = Inr (start, content) \<Longrightarrow>
   Unmarshal dec xmlData [] fill =
     (case content of Inl err \<Rightarrow> Inl err | Inr nodes \<Rightarrow> Inr (fill start nodes))"
  by (simp add: Unmarshal_def)

lemma Unmarshal_Inr_iff:
  "Unmarshal dec xmlData xmlname fill = Inr v \<longleftrightarrow>
     (\<exists>start nodes. dec xmlData = Inr (start, Inr nodes)
        \<and> (xmlname = [] \<or> xmlname = Local (ElemName start)) \<and> v = fill start nodes)"
  by (auto simp: Unmarshal_def split: sum.splits prod.splits if_splits)

lemma assign_attr_attribute:
  "assign_attr name as v = (case attribute name as of None \<Rightarrow> v | Some x \<Rightarrow> x)"
  by (induction as arbitrary: v) (auto split: option.splits)

lemma assign_elem_empty:
  "(\<forall>s c. Element s c \<in> set ns \<and> Local (ElemName s) = name \<longrightarrow> chardata c = []) \<Longrightarrow>
   assign_elem name ns [] = []"
proof (induction ns)
  case Nil
  show ?case by simp
next
  case (Cons n ns)
  from Cons.prems have "\<forall>s c. Element s c \<in> set ns \<and> Local (ElemName s) = name \<longrightarrow> chardata c = []"
    by auto
  then have ih: "assign_elem name ns [] = []" by (rule Cons.IH)
  show ?case
  proof (cases n)
    case (Element s c)
    with Cons.prems have "Local (ElemName s) = name \<Longrightarrow> chardata c = []" by auto
    with Element ih show ?thesis by simp
  qed (simp_all add: ih)
qed

lemma ReportHandler_CanHandle_char:
  "ReportHandler_CanHandle dec xmlData \<longleftrightarrow>
     (\<exists>start nodes. dec xmlData = Inr (start, Inr nodes) \<and> Local (ElemName start) = ''report'')"
proof -
  have "ReportHandler_CanHandle dec xmlData \<longleftrightarrow>
      (\<exists>root. Unmarshal_Root_report dec xmlData = Inr root \<and> Local (XMLName root) = ''report'')"
    by (simp add: ReportHandler_CanHandle_def split: sum.splits)
  also have "\<dots> \<longleftrightarrow> (\<exists>start nodes. dec xmlData = Inr (start, Inr nodes)
      \<and> Local (ElemName start) = ''report'')"
    by (auto simp: Unmarshal_Root_report_def Unmarshal_Inr_iff)
  finally show ?thesis .
qed

lemma InvoiceHandler_CanHandle_char:
  "InvoiceHandler_CanHandle dec xmlData \<longleftrightarrow>
     (\<exists>start nodes. dec xmlData = Inr (start, Inr nodes) \<and> Local (ElemName start) = ''invoice''
        \<and> attribute ''type'' (Attrs start) = Some ''sales'')"
proof -
  have sales: "\<And>as. assign_attr ''type'' as [] = ''sales'' \<longleftrightarrow> attribute ''type'' as = Some ''sales''"
    by (simp add: assign_attr_attribute split: option.splits)
  have "InvoiceHandler_CanHandle dec xmlData \<longleftrightarrow>
      (\<exists>root. Unmarshal_Root_invoice dec xmlData = Inr root
         \<and> Local (XMLName root) = ''invoice'' \<and> Type root = ''sales'')"
    by (simp add: InvoiceHandler_CanHandle_def split: sum.splits)
  also have "\<dots> \<longleftrightarrow> (\<exists>start nodes. dec xmlData = Inr (start, Inr nodes)
      \<and> Local (ElemName start) = ''invoice'' \<and> attribute ''type'' (Attrs start) = Some ''sales'')"
    by (auto simp: Unmarshal_Root_invoice_def Unmarshal_Inr_iff sales)
  finally show ?thesis .
qed

lemma ReportHandler_Handle_char:
  "ReportHandler_Handle dec xmlData out =
     (case dec xmlData of
        Inl err \<Rightarrow> (Some (DecodeError err), out)
      | Inr (start, Inl err) \<Rightarrow> (Some (DecodeError err), out)
      | Inr (start, Inr nodes) \<Rightarrow>
          (None, Println [''Processing report:'', assign_elem ''data'' nodes []] out))"
  by (simp add: ReportHandler_Handle_def Unmarshal_Report_def Unmarshal_def
      split: sum.splits prod.splits)

lemma InvoiceHandler_Handle_char:
  "InvoiceHandler_Handle dec xmlData out =
     (case dec xmlData of
        Inl err \<Rightarrow> (Some (DecodeError err), out)
      | Inr (start, Inl err) \<Rightarrow> (Some (DecodeError err), out)
      | Inr (start, Inr nodes) \<Rightarrow>
          (None, Println [''Processing invoice amount:'', assign_elem ''amount'' nodes []] out))"
  by (simp add: InvoiceHandler_Handle_def Unmarshal_Invoice_def Unmarshal_def
      split: sum.splits prod.splits)

section \<open>Claims about the dispatcher\<close>

text \<open>
  C1. For every registry and payload, \<^verbatim>\<open>ProcessXML\<close> goes through the handlers in
  registration order. When the handlers \<open>pre\<close> registered first all answer false and the
  next one, \<open>h\<close>, answers true, the call returns the result of \<open>h\<close>'s \<^verbatim>\<open>Handle\<close>
  verbatim, a failure as well as a success, and its effect on the world is that of this one
  \<^verbatim>\<open>Handle\<close>. The entries \<open>post\<close> registered after \<open>h\<close> are not consulted: any
  entries in their place, nil ones included, give the same result. With every handler
  counting the runs of its \<^verbatim>\<open>Handle\<close>, the count goes up by exactly one here, and by
  at most one for every registry.
\<close>

theorem ProcessXML_first_match:
  assumes "handlers p = map Some pre @ Some h # post"
    and "\<forall>g\<in>set pre. \<not> CanHandle g xmlData"
    and "CanHandle h xmlData"
  shows "ProcessXML p xmlData w = (case Handle h xmlData w of (err, w') \<Rightarrow> (Returned err, w'))
       \<and> (\<forall>post'. ProcessXML (p\<lparr>handlers := map Some pre @ Some h # post'\<rparr>) xmlData w
                    = ProcessXML p xmlData w)
       \<and> fst (snd (ProcessXML \<lparr>handlers = map (map_option counting) (handlers p)\<rparr> xmlData (n, w)))
           = Suc n
       \<and> (\<forall>hs. fst (snd (ProcessXML \<lparr>handlers = map (map_option counting) hs\<rparr> xmlData (n, w)))
                 \<le> Suc n)"
proof -
  have first: "\<And>rest. range_handlers (map Some pre @ Some h # rest) xmlData w
      = (case Handle h xmlData w of (err, w') \<Rightarrow> (Returned err, w'))"
    using assms(2,3) by (simp add: range_handlers_skip)
  have pre': "\<forall>g\<in>set (map counting pre). \<not> CanHandle g xmlData"
    using assms(2) by (simp add: counting_def)
  have "map (map_option counting) (handlers p)
      = map Some (map counting pre) @ Some (counting h) # map (map_option counting) post"
    by (simp add: assms(1))
  then have "range_handlers (map (map_option counting) (handlers p)) xmlData (n, w)
      = range_handlers (Some (counting h) # map (map_option counting) post) xmlData (n, w)"
    using range_handlers_skip[OF pre'] by simp
  then have cnt: "fst (snd (range_handlers (map (map_option counting) (handlers p)) xmlData (n, w)))
      = Suc n"
    using assms(3) by (simp add: counting_def split: prod.splits)
  show ?thesis
    using first cnt by (simp add: ProcessXML_def assms(1) range_handlers_counting)
qed

theorem ProcessXML_first_match_witness:
  "\<not> CanHandle (ReportHandler xml_decode) ''<report><data>''
   \<and> CanHandle (CatchAllHandler xml_decode) ''<report><data>''
   \<and> ProcessXML
        \<lparr>handlers = [Some (ReportHandler xml_decode), Some (CatchAllHandler xml_decode),
                     Some (InvoiceHandler xml_decode), None]\<rparr>
        ''<report><data>'' []
       = (Returned (Some (DecodeError (SyntaxError ''unexpected EOF'' 1))), [])
   \<and> fst (snd (ProcessXML
        \<lparr>handlers = map (map_option counting)
           [Some (ReportHandler xml_decode), Some (CatchAllHandler xml_decode),
            Some (InvoiceHandler xml_decode), None]\<rparr>
        ''<report><data>'' (0, []))) = 1"
proof -
  let ?p = "\<lparr>handlers = [Some (ReportHandler xml_decode), Some (CatchAllHandler xml_decode),
                     Some (InvoiceHandler xml_decode), None]\<rparr>"
  have no: "\<not> ReportHandler_CanHandle xml_decode ''<report><data>''"
    by code_simp
  have fails: "ReportHandler_Handle xml_decode ''<report><data>'' []
      = (Some (DecodeError (SyntaxError ''unexpected EOF'' 1)), [])"
    by code_simp
  have a: "handlers ?p = map Some [ReportHandler xml_decode]
      @ Some (CatchAllHandler xml_decode) # [Some (InvoiceHandler xml_decode), None]"
    by simp
  have b: "\<forall>g\<in>set [ReportHandler xml_decode]. \<not> CanHandle g ''<report><data>''"
    using no by (simp add: ReportHandler_def)
  have c: "CanHandle (CatchAllHandler xml_decode) ''<report><data>''"
    by (simp add: CatchAllHandler_def)
  show ?thesis
    using ProcessXML_first_match[OF a b c, of "[]" 0] no fails
    by (simp add: ReportHandler_def CatchAllHandler_def)
qed

text \<open>
  C2. When every registered handler answers false, in particular when none is registered,
  \<^verbatim>\<open>ProcessXML\<close> returns the failure with the message
  \<^verbatim>\<open>no handler found for the given XML\<close> and leaves the world as it is. This failure is
  no decode failure, and the \<^verbatim>\<open>Handle\<close> of a reference handler never returns it.
\<close>

theorem ProcessXML_no_handler_found:
  assumes "handlers p = map Some hs"
    and "\<forall>g\<in>set hs. \<not> CanHandle g xmlData"
  shows "ProcessXML p xmlData w
           = (Returned (Some (Errorf ''no handler found for the given XML'')), w)
       \<and> ProcessXML NewXMLProcessor xmlData w
           = (Returned (Some (Errorf ''no handler found for the given XML'')), w)
       \<and> (\<forall>err. Errorf ''no handler found for the given XML'' \<noteq> DecodeError err)
       \<and> (\<forall>dec d out.
             fst (ReportHandler_Handle dec d out)
               \<noteq> Some (Errorf ''no handler found for the given XML'')
           \<and> fst (InvoiceHandler_Handle dec d out)
               \<noteq> Some (Errorf ''no handler found for the given XML''))"
proof -
  have "range_handlers (map Some hs @ []) xmlData w = range_handlers [] xmlData w"
    using assms(2) by (rule range_handlers_skip)
  then have 1: "ProcessXML p xmlData w
      = (Returned (Some (Errorf ''no handler found for the given XML'')), w)"
    by (simp add: ProcessXML_def assms(1))
  have 2: "ProcessXML NewXMLProcessor xmlData w
      = (Returned (Some (Errorf ''no handler found for the given XML'')), w)"
    by (simp add: ProcessXML_def NewXMLProcessor_def)
  have 3: "\<And>dec d out. fst (ReportHandler_Handle dec d out)
      \<noteq> Some (Errorf ''no handler found for the given XML'')"
    by (simp add: ReportHandler_Handle_def split: sum.splits prod.splits)
  have 4: "\<And>dec d out. fst (InvoiceHandler_Handle dec d out)
      \<noteq> Some (Errorf ''no handler found for the given XML'')"
    by (simp add: InvoiceHandler_Handle_def split: sum.splits)
  show ?thesis using 1 2 3 4 by simp
qed

theorem ProcessXML_no_handler_found_witness:
  "\<not> CanHandle (ReportHandler xml_decode) ''<unknown></unknown>''
   \<and> \<not> CanHandle (InvoiceHandler xml_decode) ''<unknown></unknown>''
   \<and> ProcessXML \<lparr>handlers = [Some (ReportHandler xml_decode), Some (InvoiceHandler xml_decode)]\<rparr>
         ''<unknown></unknown>'' []
       = (Returned (Some (Errorf ''no handler found for the given XML'')), [])
   \<and> ProcessXML NewXMLProcessor ''<unknown></unknown>'' ([] :: string)
       = (Returned (Some (Errorf ''no handler found for the given XML'')), [])"
proof -
  let ?p = "\<lparr>handlers = [Some (ReportHandler xml_decode), Some (InvoiceHandler xml_decode)]\<rparr>"
  have r: "\<not> ReportHandler_CanHandle xml_decode ''<unknown></unknown>''"
    by code_simp
  have i: "\<not> InvoiceHandler_CanHandle xml_decode ''<unknown></unknown>''"
    by code_simp
  have a: "handlers ?p = map Some [ReportHandler xml_decode, InvoiceHandler xml_decode]"
    by simp
  have b: "\<forall>g\<in>set [ReportHandler xml_decode, InvoiceHandler xml_decode].
      \<not> CanHandle g ''<unknown></unknown>''"
    using r i by (simp add: ReportHandler_def InvoiceHandler_def)
  show ?thesis
    using ProcessXML_no_handler_found[OF a b, of "[]"] r i
    by (simp add: ReportHandler_def InvoiceHandler_def)
qed

text \<open>
  C4. For two registries holding the same handlers in different orders, and a payload that
  at most one of these handlers recognises, \<^verbatim>\<open>ProcessXML\<close> gives the same result and the
  same effect. The order only matters once two or more handlers recognise the payload.
\<close>

theorem ProcessXML_permutation:
  assumes "handlers p = map Some hs"
    and "handlers q = map Some hs'"
    and "mset hs' = mset hs"
    and "length (filter (\<lambda>h. CanHandle h xmlData) hs) \<le> 1"
  shows "ProcessXML q xmlData w = ProcessXML p xmlData w"
proof -
  have "filter (\<lambda>h. CanHandle h xmlData) hs' = filter (\<lambda>h. CanHandle h xmlData) hs"
    using assms(3,4) by (intro filter_perm_le1) simp_all
  then show ?thesis
    by (simp add: ProcessXML_def assms(1,2) range_handlers_filter)
qed

theorem ProcessXML_permutation_witness:
  "length (filter (\<lambda>h. CanHandle h ''<report><data>Hello</data></report>'')
      [ReportHandler xml_decode, InvoiceHandler xml_decode]) = 1
   \<and> ProcessXML \<lparr>handlers = [Some (InvoiceHandler xml_decode), Some (ReportHandler xml_decode)]\<rparr>
         ''<report><data>Hello</data></report>'' []
     = ProcessXML \<lparr>handlers = [Some (ReportHandler xml_decode), Some (InvoiceHandler xml_decode)]\<rparr>
         ''<report><data>Hello</data></report>'' []"
proof -
  let ?p = "\<lparr>handlers = [Some (ReportHandler xml_decode), Some (InvoiceHandler xml_decode)]\<rparr>"
  let ?q = "\<lparr>handlers = [Some (InvoiceHandler xml_decode), Some (ReportHandler xml_decode)]\<rparr>"
  have r: "ReportHandler_CanHandle xml_decode ''<report><data>Hello</data></report>''"
    by code_simp
  have i: "\<not> InvoiceHandler_CanHandle xml_decode ''<report><data>Hello</data></report>''"
    by code_simp
  have a: "handlers ?p = map Some [ReportHandler xml_decode, InvoiceHandler xml_decode]"
    by simp
  have b: "handlers ?q = map Some [InvoiceHandler xml_decode, ReportHandler xml_decode]"
    by simp
  have c: "mset [InvoiceHandler xml_decode, ReportHandler xml_decode]
      = mset [ReportHandler xml_decode, InvoiceHandler xml_decode]"
    by simp
  have d: "length (filter (\<lambda>h. CanHandle h ''<report><data>Hello</data></report>'')
      [ReportHandler xml_decode, InvoiceHandler xml_decode]) = 1"
    using r i by (simp add: ReportHandler_def InvoiceHandler_def)
  from d have d': "length (filter (\<lambda>h. CanHandle h ''<report><data>Hello</data></report>'')
      [ReportHandler xml_decode, InvoiceHandler xml_decode]) \<le> 1"
    by simp
  show ?thesis
    using ProcessXML_permutation[OF a b c d', of "[]"] d by simp
qed

text \<open>
  With two handlers recognising a payload the order does decide: whichever of the two is
  registered first processes an invoice here.
\<close>

lemma ProcessXML_order_decides_ties:
  "CanHandle (CatchAllHandler xml_decode) ''<invoice type=\"sales\"><amount>100</amount></invoice>''
   \<and> CanHandle (InvoiceHandler xml_decode) ''<invoice type=\"sales\"><amount>100</amount></invoice>''
   \<and> ProcessXML \<lparr>handlers = [Some (CatchAllHandler xml_decode), Some (InvoiceHandler xml_decode)]\<rparr>
        ''<invoice type=\"sales\"><amount>100</amount></invoice>'' []
       = (Returned None, ''Processing report: '' @ [CHR 0x0A])
   \<and> ProcessXML \<lparr>handlers = [Some (InvoiceHandler xml_decode), Some (CatchAllHandler xml_decode)]\<rparr>
        ''<invoice type=\"sales\"><amount>100</amount></invoice>'' []
       = (Returned None, ''Processing invoice amount: 100'' @ [CHR 0x0A])"
proof -
  let ?d = "''<invoice type=\"sales\"><amount>100</amount></invoice>''"
  have i: "InvoiceHandler_CanHandle xml_decode ?d"
    by code_simp
  have r: "ReportHandler_Handle xml_decode ?d [] = (None, ''Processing report: '' @ [CHR 0x0A])"
    by code_simp
  have h: "InvoiceHandler_Handle xml_decode ?d [] = (None, ''Processing invoice amount: 100'' @ [CHR 0x0A])"
    by code_simp
  show ?thesis
    using i r h by (simp add: ProcessXML_def CatchAllHandler_def InvoiceHandler_def)
qed

text \<open>
  C8. \<^verbatim>\<open>RegisterHandler\<close> puts the handler at the end of the registry: the registry is one
  longer, every earlier entry keeps its position, the new last entry is the handler, and
  registering the same handler twice gives two entries.
\<close>

theorem RegisterHandler_appends:
  "handlers (RegisterHandler p h) = handlers p @ [h]
   \<and> length (handlers (RegisterHandler p h)) = Suc (length (handlers p))
   \<and> (\<forall>i<length (handlers p). handlers (RegisterHandler p h) ! i = handlers p ! i)
   \<and> handlers (RegisterHandler p h) ! length (handlers p) = h
   \<and> handlers (RegisterHandler (RegisterHandler p h) h) = handlers p @ [h, h]"
  by (simp add: RegisterHandler_def nth_append)

theorem RegisterHandler_appends_witness:
  "(0::nat) < length (handlers \<lparr>handlers = [Some (InvoiceHandler xml_decode)]\<rparr>)
   \<and> handlers (RegisterHandler \<lparr>handlers = [Some (InvoiceHandler xml_decode)]\<rparr>
        (Some (ReportHandler xml_decode))) ! 0
     = Some (InvoiceHandler xml_decode)
   \<and> length (handlers (RegisterHandler \<lparr>handlers = [Some (InvoiceHandler xml_decode)]\<rparr>
        (Some (ReportHandler xml_decode)))) = 2
   \<and> handlers (RegisterHandler (RegisterHandler \<lparr>handlers = [Some (InvoiceHandler xml_decode)]\<rparr>
        (Some (ReportHandler xml_decode))) (Some (ReportHandler xml_decode)))
     = [Some (InvoiceHandler xml_decode), Some (ReportHandler xml_decode),
        Some (ReportHandler xml_decode)]"
proof -
  let ?p = "\<lparr>handlers = [Some (InvoiceHandler xml_decode)]\<rparr>"
  let ?h = "Some (ReportHandler xml_decode)"
  note t = RegisterHandler_appends[of ?p ?h]
  have pos: "(0::nat) < length (handlers ?p)" by simp
  from t have keep: "\<forall>i<length (handlers ?p). handlers (RegisterHandler ?p ?h) ! i = handlers ?p ! i"
    by blast
  from keep pos have k0: "handlers (RegisterHandler ?p ?h) ! 0 = handlers ?p ! 0"
    by blast
  from t have len: "length (handlers (RegisterHandler ?p ?h)) = Suc (length (handlers ?p))"
    by blast
  from t have twice: "handlers (RegisterHandler (RegisterHandler ?p ?h) ?h) = handlers ?p @ [?h, ?h]"
    by blast
  show ?thesis using pos k0 len twice by simp
qed

text \<open>
  C10. \<^verbatim>\<open>RegisterHandler\<close> takes a nil handler like any other, and \<^verbatim>\<open>ProcessXML\<close>
  panics on every payload that reaches the nil entry, that is, whenever all handlers
  registered before it answer false.
\<close>

theorem RegisterHandler_nil_ProcessXML_panics:
  assumes "\<forall>g\<in>set pre. \<not> CanHandle g xmlData"
  shows "handlers (RegisterHandler q None) = handlers q @ [None]
       \<and> (handlers q = map Some pre \<longrightarrow>
            ProcessXML (RegisterHandler q None) xmlData w = (Panic, w))
       \<and> (handlers p = map Some pre @ None # post \<longrightarrow> ProcessXML p xmlData w = (Panic, w))"
proof -
  have "\<And>rest. range_handlers (map Some pre @ None # rest) xmlData w = (Panic, w)"
    using assms by (simp add: range_handlers_skip)
  then show ?thesis
    by (simp add: ProcessXML_def RegisterHandler_def)
qed

theorem RegisterHandler_nil_ProcessXML_panics_witness:
  "\<not> CanHandle (InvoiceHandler xml_decode) ''<report><data>Hello</data></report>''
   \<and> handlers (RegisterHandler \<lparr>handlers = [Some (InvoiceHandler xml_decode)]\<rparr> None)
       = [Some (InvoiceHandler xml_decode), None]
   \<and> ProcessXML (RegisterHandler \<lparr>handlers = [Some (InvoiceHandler xml_decode)]\<rparr> None)
         ''<report><data>Hello</data></report>'' []
       = (Panic, [])
   \<and> ProcessXML \<lparr>handlers = [Some (InvoiceHandler xml_decode), None, Some (ReportHandler xml_decode)]\<rparr>
         ''<report><data>Hello</data></report>'' []
       = (Panic, [])"
proof -
  let ?q = "\<lparr>handlers = [Some (InvoiceHandler xml_decode)]\<rparr>"
  let ?p = "\<lparr>handlers = [Some (InvoiceHandler xml_decode), None, Some (ReportHandler xml_decode)]\<rparr>"
  have i: "\<not> InvoiceHandler_CanHandle xml_decode ''<report><data>Hello</data></report>''"
    by code_simp
  have a: "\<forall>g\<in>set [InvoiceHandler xml_decode].
      \<not> CanHandle g ''<report><data>Hello</data></report>''"
    using i by (simp add: InvoiceHandler_def)
  show ?thesis
    using RegisterHandler_nil_ProcessXML_panics[OF a, of ?q "[]" ?p "[Some (ReportHandler xml_decode)]"] i
    by (simp add: InvoiceHandler_def)
qed

section \<open>Claims about the reference handlers\<close>

text \<open>
  C3 as stated, with false on every malformed input, does not hold. \<^verbatim>\<open>Unmarshal\<close> stops
  at the end tag of the first element and does not compare attribute names, so
  \<^verbatim>\<open>CanHandle\<close> answers true on a payload that is malformed only behind that end tag, or
  only by a repeated attribute. The bytes behind the root element of the first payload are
  not even a token stream: the decoder run on them alone reports a syntax error. The root
  tag of the second payload has the attribute \<^verbatim>\<open>type\<close> twice.
\<close>

theorem CanHandle_true_on_malformed_counterexample:
  "ReportHandler_CanHandle xml_decode ''<report></report>trailing<<<garbage''
   \<and> xml_decode ''trailing<<<garbage'' = Inl (SyntaxError ''expected element name after <'' 1)
   \<and> xml_decode ''<invoice type=\"other\" type=\"sales\"></invoice>''
       = Inr (mk_start ''invoice'' [mk_attr ''type'' ''other'', mk_attr ''type'' ''sales''], Inr [])
   \<and> \<not> unique_attributes (mk_start ''invoice'' [mk_attr ''type'' ''other'', mk_attr ''type'' ''sales''])
   \<and> InvoiceHandler_CanHandle xml_decode ''<invoice type=\"other\" type=\"sales\"></invoice>''"
proof -
  have 1: "ReportHandler_CanHandle xml_decode ''<report></report>trailing<<<garbage''"
    by code_simp
  have 2: "xml_decode ''trailing<<<garbage'' = Inl (SyntaxError ''expected element name after <'' 1)"
    by code_simp
  have 3: "xml_decode ''<invoice type=\"other\" type=\"sales\"></invoice>''
      = Inr (mk_start ''invoice'' [mk_attr ''type'' ''other'', mk_attr ''type'' ''sales''], Inr [])"
    by code_simp
  have 4: "\<not> unique_attributes (mk_start ''invoice'' [mk_attr ''type'' ''other'', mk_attr ''type'' ''sales''])"
    by (simp add: unique_attributes_def mk_start_def mk_attr_def)
  have 5: "InvoiceHandler_CanHandle xml_decode ''<invoice type=\"other\" type=\"sales\"></invoice>''"
    by code_simp
  from 1 2 3 4 5 show ?thesis by blast
qed

text \<open>
  C3, amended. \<^verbatim>\<open>CanHandle\<close> of \<^verbatim>\<open>ReportHandler\<close> and of \<^verbatim>\<open>InvoiceHandler\<close>
  has a boolean answer for every payload: true exactly when the decoder reads a complete
  root element with the handler's recognition key. Whenever decoding fails, before the root
  element or inside it, both answer false, and so they do for a root element without the
  key. A decode failure does not reach the dispatcher: with the two handlers registered,
  \<^verbatim>\<open>ProcessXML\<close> then returns the no-handler failure, and for no payload does it panic
  or return a decode failure.
\<close>

theorem CanHandle_false_on_decode_failure:
  "(ReportHandler_CanHandle dec xmlData \<longleftrightarrow>
      (\<exists>start nodes. dec xmlData = Inr (start, Inr nodes) \<and> Local (ElemName start) = ''report''))
   \<and> (InvoiceHandler_CanHandle dec xmlData \<longleftrightarrow>
      (\<exists>start nodes. dec xmlData = Inr (start, Inr nodes) \<and> Local (ElemName start) = ''invoice''
         \<and> attribute ''type'' (Attrs start) = Some ''sales''))
   \<and> (dec xmlData = Inl err \<or> dec xmlData = Inr (start, Inl err) \<longrightarrow>
        \<not> ReportHandler_CanHandle dec xmlData \<and> \<not> InvoiceHandler_CanHandle dec xmlData
        \<and> ProcessXML \<lparr>handlers = [Some (ReportHandler dec), Some (InvoiceHandler dec)]\<rparr> xmlData out
            = (Returned (Some (Errorf ''no handler found for the given XML'')), out))
   \<and> (dec xmlData = Inr (start, content) \<and> Local (ElemName start) \<noteq> ''report'' \<longrightarrow>
        \<not> ReportHandler_CanHandle dec xmlData)
   \<and> (dec xmlData = Inr (start, content)
        \<and> (Local (ElemName start) \<noteq> ''invoice'' \<or> attribute ''type'' (Attrs start) \<noteq> Some ''sales'') \<longrightarrow>
        \<not> InvoiceHandler_CanHandle dec xmlData)
   \<and> fst (ProcessXML \<lparr>handlers = [Some (ReportHandler dec), Some (InvoiceHandler dec)]\<rparr> xmlData out)
        \<noteq> Panic
   \<and> (\<forall>e. fst (ProcessXML \<lparr>handlers = [Some (ReportHandler dec), Some (InvoiceHandler dec)]\<rparr>
               xmlData out) \<noteq> Returned (Some (DecodeError e)))"
proof -
  let ?p = "\<lparr>handlers = [Some (ReportHandler dec), Some (InvoiceHandler dec)]\<rparr>"
  have fail: "dec xmlData = Inl err \<or> dec xmlData = Inr (start, Inl err) \<Longrightarrow>
      \<not> ReportHandler_CanHandle dec xmlData \<and> \<not> InvoiceHandler_CanHandle dec xmlData"
    by (auto simp: ReportHandler_CanHandle_char InvoiceHandler_CanHandle_char)
  have none: "\<not> ReportHandler_CanHandle dec xmlData \<Longrightarrow> \<not> InvoiceHandler_CanHandle dec xmlData \<Longrightarrow>
      ProcessXML ?p xmlData out = (Returned (Some (Errorf ''no handler found for the given XML'')), out)"
    by (simp add: ProcessXML_def ReportHandler_def InvoiceHandler_def)
  have r: "dec xmlData = Inr (start, content) \<and> Local (ElemName start) \<noteq> ''report'' \<Longrightarrow>
      \<not> ReportHandler_CanHandle dec xmlData"
    by (auto simp: ReportHandler_CanHandle_char)
  have i: "dec xmlData = Inr (start, content)
      \<and> (Local (ElemName start) \<noteq> ''invoice'' \<or> attribute ''type'' (Attrs start) \<noteq> Some ''sales'') \<Longrightarrow>
      \<not> InvoiceHandler_CanHandle dec xmlData"
    by (auto simp: InvoiceHandler_CanHandle_char)
  have rok: "ReportHandler_CanHandle dec xmlData \<Longrightarrow> fst (ReportHandler_Handle dec xmlData out) = None"
    by (auto simp: ReportHandler_CanHandle_char ReportHandler_Handle_char)
  have iok: "InvoiceHandler_CanHandle dec xmlData \<Longrightarrow> fst (InvoiceHandler_Handle dec xmlData out) = None"
    by (auto simp: InvoiceHandler_CanHandle_char InvoiceHandler_Handle_char)
  have res: "fst (ProcessXML ?p xmlData out) = Returned None
      \<or> fst (ProcessXML ?p xmlData out) = Returned (Some (Errorf ''no handler found for the given XML''))"
    using rok iok
    by (auto simp: ProcessXML_def ReportHandler_def InvoiceHandler_def split: prod.splits)
  have np: "fst (ProcessXML ?p xmlData out) \<noteq> Panic"
    using res by auto
  have nd: "\<forall>e. fst (ProcessXML ?p xmlData out) \<noteq> Returned (Some (DecodeError e))"
    using res by auto
  show ?thesis
    using ReportHandler_CanHandle_char[of dec xmlData] InvoiceHandler_CanHandle_char[of dec xmlData]
      fail none r i np nd
    by blast
qed

theorem CanHandle_false_on_decode_failure_witness:
  "xml_decode ''<report><data>Hello</data>''
     = Inr (mk_start ''report'' [], Inl (SyntaxError ''unexpected EOF'' 1))
   \<and> \<not> ReportHandler_CanHandle xml_decode ''<report><data>Hello</data>''
   \<and> \<not> InvoiceHandler_CanHandle xml_decode ''<report><data>Hello</data>''
   \<and> ProcessXML \<lparr>handlers = [Some (ReportHandler xml_decode), Some (InvoiceHandler xml_decode)]\<rparr>
        ''<report><data>Hello</data>'' []
       = (Returned (Some (Errorf ''no handler found for the given XML'')), [])"
proof -
  have d: "xml_decode ''<report><data>Hello</data>''
      = Inr (mk_start ''report'' [], Inl (SyntaxError ''unexpected EOF'' 1))"
    by code_simp
  show ?thesis
    using CanHandle_false_on_decode_failure[where dec = xml_decode
        and xmlData = "''<report><data>Hello</data>''" and err = "SyntaxError ''unexpected EOF'' 1"
        and start = "mk_start ''report'' []" and out = "[]"] d
    by simp
qed

text \<open>
  C5. \<^verbatim>\<open>InvoiceHandler.CanHandle\<close> answers true if and only if the payload decodes, the
  root element's local name is \<^verbatim>\<open>invoice\<close> (string equality, so case matters) and the
  root's \<^verbatim>\<open>type\<close> attribute is \<^verbatim>\<open>sales\<close>. For the payload
  \<^verbatim>\<open><invoice type="other"></invoice>\<close>, read as an empty element \<^verbatim>\<open>invoice\<close> with
  the one attribute \<^verbatim>\<open>type="other"\<close>, it answers false, and a dispatch with only this
  handler registered returns the no-handler failure.
\<close>

theorem InvoiceHandler_CanHandle_iff:
  "(InvoiceHandler_CanHandle dec xmlData \<longleftrightarrow>
      (\<exists>start nodes. dec xmlData = Inr (start, Inr nodes) \<and> Local (ElemName start) = ''invoice''
         \<and> attribute ''type'' (Attrs start) = Some ''sales''))
   \<and> (dec ''<invoice type=\"other\"></invoice>''
         = Inr (mk_start ''invoice'' [mk_attr ''type'' ''other''], Inr []) \<longrightarrow>
        \<not> InvoiceHandler_CanHandle dec ''<invoice type=\"other\"></invoice>''
        \<and> ProcessXML \<lparr>handlers = [Some (InvoiceHandler dec)]\<rparr> ''<invoice type=\"other\"></invoice>'' out
            = (Returned (Some (Errorf ''no handler found for the given XML'')), out))"
proof -
  have "\<not> InvoiceHandler_CanHandle dec ''<invoice type=\"other\"></invoice>''"
    if "dec ''<invoice type=\"other\"></invoice>''
         = Inr (mk_start ''invoice'' [mk_attr ''type'' ''other''], Inr [])"
    using that by (simp add: InvoiceHandler_CanHandle_char mk_start_def mk_attr_def)
  then show ?thesis
    using InvoiceHandler_CanHandle_char[of dec xmlData]
    by (simp add: ProcessXML_def InvoiceHandler_def)
qed

theorem InvoiceHandler_CanHandle_iff_witness:
  "InvoiceHandler_CanHandle xml_decode ''<invoice type=\"sales\"></invoice>''
   \<and> \<not> InvoiceHandler_CanHandle xml_decode ''<Invoice type=\"sales\"></Invoice>''
   \<and> xml_decode ''<invoice type=\"other\"></invoice>''
       = Inr (mk_start ''invoice'' [mk_attr ''type'' ''other''], Inr [])
   \<and> \<not> InvoiceHandler_CanHandle xml_decode ''<invoice type=\"other\"></invoice>''
   \<and> ProcessXML \<lparr>handlers = [Some (InvoiceHandler xml_decode)]\<rparr>
         ''<invoice type=\"other\"></invoice>'' []
       = (Returned (Some (Errorf ''no handler found for the given XML'')), [])"
proof -
  have s: "xml_decode ''<invoice type=\"sales\"></invoice>''
      = Inr (mk_start ''invoice'' [mk_attr ''type'' ''sales''], Inr [])"
    by code_simp
  have a: "Local (ElemName (mk_start ''invoice'' [mk_attr ''type'' ''sales''])) = ''invoice''
      \<and> attribute ''type'' (Attrs (mk_start ''invoice'' [mk_attr ''type'' ''sales''])) = Some ''sales''"
    by (simp add: mk_start_def mk_attr_def)
  have c: "xml_decode ''<Invoice type=\"sales\"></Invoice>''
      = Inr (mk_start ''Invoice'' [mk_attr ''type'' ''sales''], Inr [])"
    by code_simp
  have o: "xml_decode ''<invoice type=\"other\"></invoice>''
      = Inr (mk_start ''invoice'' [mk_attr ''type'' ''other''], Inr [])"
    by code_simp
  note t = InvoiceHandler_CanHandle_iff[of xml_decode "''<invoice type=\"sales\"></invoice>''" "[]"]
  from t s a have yes: "InvoiceHandler_CanHandle xml_decode ''<invoice type=\"sales\"></invoice>''"
    by blast
  note u = InvoiceHandler_CanHandle_iff[of xml_decode "''<Invoice type=\"sales\"></Invoice>''" "[]"]
  have "\<not> (\<exists>start nodes. xml_decode ''<Invoice type=\"sales\"></Invoice>'' = Inr (start, Inr nodes)
      \<and> Local (ElemName start) = ''invoice''
      \<and> attribute ''type'' (Attrs start) = Some ''sales'')"
    by (simp add: c mk_start_def)
  with u have cap: "\<not> InvoiceHandler_CanHandle xml_decode ''<Invoice type=\"sales\"></Invoice>''"
    by blast
  from t o have no: "\<not> InvoiceHandler_CanHandle xml_decode ''<invoice type=\"other\"></invoice>''
      \<and> ProcessXML \<lparr>handlers = [Some (InvoiceHandler xml_decode)]\<rparr>
           ''<invoice type=\"other\"></invoice>'' []
         = (Returned (Some (Errorf ''no handler found for the given XML'')), [])"
    by blast
  show ?thesis using yes cap o no by blast
qed

text \<open>
  C6. When the decoder fails on the payload with \<open>err\<close>, \<^verbatim>\<open>Handle\<close> of a reference
  handler returns this very \<open>err\<close> and writes nothing; and when a handler with such a
  \<^verbatim>\<open>Handle\<close> is the first to recognise the payload, \<^verbatim>\<open>ProcessXML\<close> returns the same
  \<open>err\<close> to its caller. Neither step wraps the error or adds to it.
\<close>

theorem decode_failure_returned_unchanged:
  assumes "dec xmlData = Inl err \<or> dec xmlData = Inr (start, Inl err)"
    and "handlers p = map Some pre @ Some h # post"
    and "\<forall>g\<in>set pre. \<not> CanHandle g xmlData"
    and "CanHandle h xmlData"
    and "Handle h = ReportHandler_Handle dec \<or> Handle h = InvoiceHandler_Handle dec"
  shows "ReportHandler_Handle dec xmlData out = (Some (DecodeError err), out)
       \<and> InvoiceHandler_Handle dec xmlData out = (Some (DecodeError err), out)
       \<and> ProcessXML p xmlData out = (Returned (Some (DecodeError err)), out)"
proof -
  have r: "ReportHandler_Handle dec xmlData out = (Some (DecodeError err), out)"
    using assms(1) by (auto simp: ReportHandler_Handle_char)
  have i: "InvoiceHandler_Handle dec xmlData out = (Some (DecodeError err), out)"
    using assms(1) by (auto simp: InvoiceHandler_Handle_char)
  have h: "Handle h xmlData out = (Some (DecodeError err), out)"
    using assms(5) r i by auto
  have "range_handlers (map Some pre @ Some h # post) xmlData out
      = range_handlers (Some h # post) xmlData out"
    using assms(3) by (rule range_handlers_skip)
  then have "ProcessXML p xmlData out = (Returned (Some (DecodeError err)), out)"
    using assms(4) h by (simp add: ProcessXML_def assms(2))
  with r i show ?thesis by simp
qed

theorem decode_failure_returned_unchanged_witness:
  "xml_decode ''<report><data>Hello</data></repor>''
     = Inr (mk_start ''report'' [], Inl (SyntaxError ''element <report> closed by </repor>'' 1))
   \<and> \<not> CanHandle (InvoiceHandler xml_decode) ''<report><data>Hello</data></repor>''
   \<and> CanHandle (CatchAllHandler xml_decode) ''<report><data>Hello</data></repor>''
   \<and> ReportHandler_Handle xml_decode ''<report><data>Hello</data></repor>'' []
       = (Some (DecodeError (SyntaxError ''element <report> closed by </repor>'' 1)), [])
   \<and> ProcessXML
        \<lparr>handlers = [Some (InvoiceHandler xml_decode), Some (CatchAllHandler xml_decode)]\<rparr>
        ''<report><data>Hello</data></repor>'' []
       = (Returned (Some (DecodeError (SyntaxError ''element <report> closed by </repor>'' 1))), [])"
proof -
  let ?d = "''<report><data>Hello</data></repor>''"
  let ?p = "\<lparr>handlers = [Some (InvoiceHandler xml_decode), Some (CatchAllHandler xml_decode)]\<rparr>"
  have d: "xml_decode ?d
      = Inr (mk_start ''report'' [], Inl (SyntaxError ''element <report> closed by </repor>'' 1))"
    by code_simp
  then have d': "xml_decode ?d = Inl (SyntaxError ''element <report> closed by </repor>'' 1)
      \<or> xml_decode ?d
        = Inr (mk_start ''report'' [], Inl (SyntaxError ''element <report> closed by </repor>'' 1))"
    by simp
  have i: "\<not> InvoiceHandler_CanHandle xml_decode ?d"
    by code_simp
  have a: "handlers ?p = map Some [InvoiceHandler xml_decode] @ Some (CatchAllHandler xml_decode) # []"
    by simp
  have b: "\<forall>g\<in>set [InvoiceHandler xml_decode]. \<not> CanHandle g ?d"
    using i by (simp add: InvoiceHandler_def)
  have c: "CanHandle (CatchAllHandler xml_decode) ?d"
    by (simp add: CatchAllHandler_def)
  have e: "Handle (CatchAllHandler xml_decode) = ReportHandler_Handle xml_decode
      \<or> Handle (CatchAllHandler xml_decode) = InvoiceHandler_Handle xml_decode"
    by (simp add: CatchAllHandler_def)
  show ?thesis
    using decode_failure_returned_unchanged[OF d' a b c e, of "[]"] d i c
    by (simp add: InvoiceHandler_def)
qed

text \<open>
  C7. For the payload \<^verbatim>\<open><report><data>Hello</data></report>\<close>, read as the element
  \<^verbatim>\<open>report\<close> with the one child \<^verbatim>\<open>data\<close> holding the text \<^verbatim>\<open>Hello\<close>, a dispatch
  with \<^verbatim>\<open>ReportHandler\<close> registered succeeds, the decoded field is \<^verbatim>\<open>Hello\<close>, and the
  line printed carries it. For a payload whose root element is read completely and has no
  \<^verbatim>\<open>data\<close> child, or only \<^verbatim>\<open>data\<close> children without character data,
  \<^verbatim>\<open>ReportHandler.Handle\<close> succeeds with the empty string as the field.
\<close>

theorem ReportHandler_extracts_data:
  "(dec ''<report><data>Hello</data></report>''
      = Inr (mk_start ''report'' [], Inr [Element (mk_start ''data'' []) [CharData ''Hello'']]) \<longrightarrow>
      Unmarshal_Report dec ''<report><data>Hello</data></report>'' = Inr \<lparr>Data = ''Hello''\<rparr>
      \<and> ProcessXML \<lparr>handlers = [Some (ReportHandler dec)]\<rparr> ''<report><data>Hello</data></report>'' out
          = (Returned None, Println [''Processing report:'', ''Hello''] out))
   \<and> (dec xmlData = Inr (start, Inr nodes)
        \<and> (\<forall>s c. Element s c \<in> set nodes \<and> Local (ElemName s) = ''data'' \<longrightarrow> chardata c = []) \<longrightarrow>
      Unmarshal_Report dec xmlData = Inr \<lparr>Data = []\<rparr>
      \<and> ReportHandler_Handle dec xmlData out = (None, Println [''Processing report:'', []] out)
      \<and> (Local (ElemName start) = ''report'' \<longrightarrow>
           ProcessXML \<lparr>handlers = [Some (ReportHandler dec)]\<rparr> xmlData out
             = (Returned None, Println [''Processing report:'', []] out)))"
proof -
  let ?hello = "''<report><data>Hello</data></report>''"
  have 1: "Unmarshal_Report dec ?hello = Inr \<lparr>Data = ''Hello''\<rparr>
      \<and> ProcessXML \<lparr>handlers = [Some (ReportHandler dec)]\<rparr> ?hello out
          = (Returned None, Println [''Processing report:'', ''Hello''] out)"
    if h: "dec ?hello
      = Inr (mk_start ''report'' [], Inr [Element (mk_start ''data'' []) [CharData ''Hello'']])"
  proof -
    have u: "Unmarshal_Report dec ?hello = Inr \<lparr>Data = ''Hello''\<rparr>"
      using h by (simp add: Unmarshal_Report_def Unmarshal_unnamed_content mk_start_def)
    have c: "ReportHandler_CanHandle dec ?hello"
      using h by (simp add: ReportHandler_CanHandle_char mk_start_def)
    have "ReportHandler_Handle dec ?hello out = (None, Println [''Processing report:'', ''Hello''] out)"
      using u by (simp add: ReportHandler_Handle_def)
    with c u show ?thesis
      by (simp add: ProcessXML_def ReportHandler_def)
  qed
  have 2: "Unmarshal_Report dec xmlData = Inr \<lparr>Data = []\<rparr>
      \<and> ReportHandler_Handle dec xmlData out = (None, Println [''Processing report:'', []] out)
      \<and> (Local (ElemName start) = ''report'' \<longrightarrow>
           ProcessXML \<lparr>handlers = [Some (ReportHandler dec)]\<rparr> xmlData out
             = (Returned None, Println [''Processing report:'', []] out))"
    if h: "dec xmlData = Inr (start, Inr nodes)"
      and e: "\<forall>s c. Element s c \<in> set nodes \<and> Local (ElemName s) = ''data'' \<longrightarrow> chardata c = []"
  proof -
    have z: "assign_elem ''data'' nodes [] = []"
      using e by (rule assign_elem_empty)
    have u: "Unmarshal_Report dec xmlData = Inr \<lparr>Data = []\<rparr>"
      using h z by (simp add: Unmarshal_Report_def Unmarshal_unnamed_content)
    have hd: "ReportHandler_Handle dec xmlData out = (None, Println [''Processing report:'', []] out)"
      using u by (simp add: ReportHandler_Handle_def)
    have "ReportHandler_CanHandle dec xmlData" if "Local (ElemName start) = ''report''"
      using h that by (simp add: ReportHandler_CanHandle_char)
    with u hd show ?thesis
      by (simp add: ProcessXML_def ReportHandler_def)
  qed
  from 1 2 show ?thesis by blast
qed

theorem ReportHandler_extracts_data_witness:
  "xml_decode ''<report><data>Hello</data></report>''
      = Inr (mk_start ''report'' [], Inr [Element (mk_start ''data'' []) [CharData ''Hello'']])
   \<and> Unmarshal_Report xml_decode ''<report><data>Hello</data></report>'' = Inr \<lparr>Data = ''Hello''\<rparr>
   \<and> ProcessXML \<lparr>handlers = [Some (ReportHandler xml_decode)]\<rparr>
        ''<report><data>Hello</data></report>'' []
       = (Returned None, ''Processing report: Hello'' @ [CHR 0x0A])
   \<and> xml_decode ''<report><data></data></report>''
      = Inr (mk_start ''report'' [], Inr [Element (mk_start ''data'' []) []])
   \<and> Unmarshal_Report xml_decode ''<report><data></data></report>'' = Inr \<lparr>Data = []\<rparr>
   \<and> ProcessXML \<lparr>handlers = [Some (ReportHandler xml_decode)]\<rparr> ''<report><data></data></report>'' []
       = (Returned None, ''Processing report: '' @ [CHR 0x0A])
   \<and> xml_decode ''<report></report>'' = Inr (mk_start ''report'' [], Inr [])
   \<and> ReportHandler_Handle xml_decode ''<report></report>'' []
       = (None, ''Processing report: '' @ [CHR 0x0A])"
proof -
  let ?hello = "''<report><data>Hello</data></report>''"
  let ?empty = "''<report><data></data></report>''"
  have h: "xml_decode ?hello
      = Inr (mk_start ''report'' [], Inr [Element (mk_start ''data'' []) [CharData ''Hello'']])"
    by code_simp
  have e: "xml_decode ?empty = Inr (mk_start ''report'' [], Inr [Element (mk_start ''data'' []) []])"
    by code_simp
  have c: "\<forall>s c. Element s c \<in> set [Element (mk_start ''data'' []) []]
      \<and> Local (ElemName s) = ''data'' \<longrightarrow> chardata c = []"
    by simp
  have n: "Local (ElemName (mk_start ''report'' [])) = ''report''"
    by (simp add: mk_start_def)
  note t = ReportHandler_extracts_data[of xml_decode "[]" ?empty "mk_start ''report'' []"
      "[Element (mk_start ''data'' []) []]"]
  from t h have 1: "Unmarshal_Report xml_decode ?hello = Inr \<lparr>Data = ''Hello''\<rparr>
      \<and> ProcessXML \<lparr>handlers = [Some (ReportHandler xml_decode)]\<rparr> ?hello []
          = (Returned None, Println [''Processing report:'', ''Hello''] [])"
    by blast
  from t e c n have 2: "Unmarshal_Report xml_decode ?empty = Inr \<lparr>Data = []\<rparr>
      \<and> ProcessXML \<lparr>handlers = [Some (ReportHandler xml_decode)]\<rparr> ?empty []
          = (Returned None, Println [''Processing report:'', []] [])"
    by blast
  have a: "xml_decode ''<report></report>'' = Inr (mk_start ''report'' [], Inr [])"
    by code_simp
  have b: "\<forall>s c. Element s c \<in> set [] \<and> Local (ElemName s) = ''data'' \<longrightarrow> chardata c = []"
    by simp
  note t' = ReportHandler_extracts_data[of xml_decode "[]" "''<report></report>''"
      "mk_start ''report'' []" "[]"]
  from t' a b have 3: "ReportHandler_Handle xml_decode ''<report></report>'' []
      = (None, Println [''Processing report:'', []] [])"
    by blast
  show ?thesis using h e 1 2 a 3 by (simp add: Println_def)
qed



end
